theory Spec2Isabelle
  imports Main "HOL-Library.Word"
begin

section \<open>Rows, criteria and queries\<close>

text \<open>
  The scoped filters of \<^verbatim>\<open>zenml/models/v2/base/scoped.py\<close> add criteria to a
  select statement over a table. A \<^verbatim>\<open>UUID\<close> is a 128-bit number. A row of the table
  carries the columns the filter classes read with \<^verbatim>\<open>getattr(table, ...)\<close>:
  \<^verbatim>\<open>user_id\<close>, \<^verbatim>\<open>workspace_id\<close>, \<^verbatim>\<open>is_shared\<close>, \<^verbatim>\<open>model_id\<close> and
  \<^verbatim>\<open>model_version_id\<close>; a column that holds SQL NULL is \<open>None\<close>. The table is
  taken to declare all five columns, so \<^verbatim>\<open>getattr\<close> finds each of them.
\<close>

type_synonym uuid = "128 word"

record resource =
  user_id :: "uuid option"
  workspace_id :: "uuid option"
  is_shared :: bool
  model_id :: "uuid option"
  model_version_id :: "uuid option"

datatype column = Col_user_id | Col_workspace_id | Col_model_id | Col_model_version_id

fun getattr :: "column \<Rightarrow> resource \<Rightarrow> uuid option" where
  "getattr Col_user_id r = user_id r"
| "getattr Col_workspace_id r = workspace_id r"
| "getattr Col_model_id r = model_id r"
| "getattr Col_model_version_id r = model_version_id r"

text \<open>
  The criteria the filters build: \<^verbatim>\<open>column == value\<close>, \<^verbatim>\<open>column.is_(None)\<close>,
  \<^verbatim>\<open>is_shared.is_(True)\<close> and \<^verbatim>\<open>or_(...)\<close>. \<open>Criterion\<close> stands for any other
  criterion a query may already hold, given by its truth value on a row.
\<close>

datatype expr =
    Equals column uuid
  | Is_null column
  | Is_shared_true
  | Or_of "expr list"
  | Criterion "resource \<Rightarrow> bool option"

text \<open>
  The operator \<^verbatim>\<open>==\<close> of a column: compared with \<^verbatim>\<open>None\<close> it builds
  \<^verbatim>\<open>IS NULL\<close>, compared with a value it builds an equality.
\<close>

fun col_eq :: "column \<Rightarrow> uuid option \<Rightarrow> expr" where
  "col_eq c None = Is_null c"
| "col_eq c (Some v) = Equals c v"

text \<open>
  SQL's three-valued disjunction (\<open>None\<close> is unknown) and the truth value of a
  criterion on a row: an equality with a NULL column is unknown.
\<close>

fun or3 :: "bool option \<Rightarrow> bool option \<Rightarrow> bool option" where
  "or3 (Some True) b = Some True"
| "or3 a (Some True) = Some True"
| "or3 None b = None"
| "or3 a None = None"
| "or3 a b = Some False"

fun truth :: "resource \<Rightarrow> expr \<Rightarrow> bool option" where
  "truth r (Equals c v) = (case getattr c r of None \<Rightarrow> None | Some x \<Rightarrow> Some (x = v))"
| "truth r (Is_null c) = Some (getattr c r = None)"
| "truth r Is_shared_true = Some (is_shared r)"
| "truth r (Or_of es) = foldr or3 (map (truth r) es) (Some False)"
| "truth r (Criterion p) = p r"

text \<open>
  A select statement: its criteria, joined by AND, and everything else of it
  (\<open>statement\<close>). \<^verbatim>\<open>query.where(e)\<close> adds one criterion; a row is selected when
  every criterion is true on it.
\<close>

record 's query =
  statement :: 's
  whereclause :: "expr list"

definition query_where :: "'s query \<Rightarrow> expr \<Rightarrow> 's query" where
  "query_where q e = q\<lparr>whereclause := whereclause q @ [e]\<rparr>"

definition selects :: "'s query \<Rightarrow> resource \<Rightarrow> bool" where
  "selects q r = list_all (\<lambda>e. truth r e = Some True) (whereclause q)"

section \<open>The filter classes\<close>

text \<open>
  \<^verbatim>\<open>BaseFilter\<close> (\<^verbatim>\<open>zenml/models/v2/base/filter.py\<close>) is not among the sources:
  \<open>base_fields\<close> stands for the fields it declares. Each class of \<^verbatim>\<open>scoped.py\<close>
  extends the record of its parent by the fields it declares. \<^verbatim>\<open>_model_id\<close> and
  \<^verbatim>\<open>_model_version_id\<close> are private attributes with default \<^verbatim>\<open>None\<close>.
\<close>

record 'b BaseFilter =
  base_fields :: 'b

record 'b UserScopedFilter = "'b BaseFilter" +
  scope_user :: "uuid option"

record 'b WorkspaceScopedFilter = "'b BaseFilter" +
  scope_workspace :: "uuid option"

record 'b ShareableFilter = "'b WorkspaceScopedFilter" +
  scope_user :: "uuid option"

record 'b ModelScopedFilter = "'b WorkspaceScopedFilter" +
  private_model_id :: "uuid option"

record 'b ModelVersionScopedFilter = "'b ModelScopedFilter" +
  private_model_version_id :: "uuid option"

text \<open>
  What \<^verbatim>\<open>BaseFilter\<close> provides is a parameter: its two class constants and its
  \<^verbatim>\<open>apply_filter\<close>, any function of the \<^verbatim>\<open>FILTER_EXCLUDE_FIELDS\<close> of the object's
  class, the fields the scope classes declare (name and value), the fields of
  \<^verbatim>\<open>BaseFilter\<close> itself and the query.
\<close>

record ('b, 's) BaseFilter_class =
  BaseFilter_FILTER_EXCLUDE_FIELDS :: "string list"
  BaseFilter_CLI_EXCLUDE_FIELDS :: "string list"
  BaseFilter_apply_filter ::
    "string list \<Rightarrow> (string \<times> uuid option) list \<Rightarrow> 'b \<Rightarrow> 's query \<Rightarrow> 's query"

subsection \<open>Class constants and declared fields\<close>

definition UserScopedFilter_FILTER_EXCLUDE_FIELDS :: "('b, 's) BaseFilter_class \<Rightarrow> string list" where
  "UserScopedFilter_FILTER_EXCLUDE_FIELDS cls = BaseFilter_FILTER_EXCLUDE_FIELDS cls @ [''scope_user'']"

definition UserScopedFilter_CLI_EXCLUDE_FIELDS :: "('b, 's) BaseFilter_class \<Rightarrow> string list" where
  "UserScopedFilter_CLI_EXCLUDE_FIELDS cls = BaseFilter_CLI_EXCLUDE_FIELDS cls @ [''scope_user'']"

definition WorkspaceScopedFilter_FILTER_EXCLUDE_FIELDS :: "('b, 's) BaseFilter_class \<Rightarrow> string list" where
  "WorkspaceScopedFilter_FILTER_EXCLUDE_FIELDS cls =
     BaseFilter_FILTER_EXCLUDE_FIELDS cls @ [''scope_workspace'']"

definition WorkspaceScopedFilter_CLI_EXCLUDE_FIELDS :: "('b, 's) BaseFilter_class \<Rightarrow> string list" where
  "WorkspaceScopedFilter_CLI_EXCLUDE_FIELDS cls =
     BaseFilter_CLI_EXCLUDE_FIELDS cls @ [''scope_workspace'']"

definition ShareableFilter_FILTER_EXCLUDE_FIELDS :: "('b, 's) BaseFilter_class \<Rightarrow> string list" where
  "ShareableFilter_FILTER_EXCLUDE_FIELDS cls =
     WorkspaceScopedFilter_FILTER_EXCLUDE_FIELDS cls @ [''scope_user'']"

definition ShareableFilter_CLI_EXCLUDE_FIELDS :: "('b, 's) BaseFilter_class \<Rightarrow> string list" where
  "ShareableFilter_CLI_EXCLUDE_FIELDS cls =
     WorkspaceScopedFilter_CLI_EXCLUDE_FIELDS cls @ [''scope_user'']"

text \<open>
  The fields each class declares or inherits from a class of \<^verbatim>\<open>scoped.py\<close>, by
  name. The model-scoped classes declare private attributes only, so their fields
  are those of \<^verbatim>\<open>WorkspaceScopedFilter\<close>, whose class constants they inherit.
\<close>

definition UserScopedFilter_fields ::
  "('b, 'z) UserScopedFilter_scheme \<Rightarrow> (string \<times> uuid option) list" where
  "UserScopedFilter_fields self = [(''scope_user'', UserScopedFilter.scope_user self)]"

definition WorkspaceScopedFilter_fields ::
  "('b, 'z) WorkspaceScopedFilter_scheme \<Rightarrow> (string \<times> uuid option) list" where
  "WorkspaceScopedFilter_fields self = [(''scope_workspace'', scope_workspace self)]"

definition ShareableFilter_fields ::
  "('b, 'z) ShareableFilter_scheme \<Rightarrow> (string \<times> uuid option) list" where
  "ShareableFilter_fields self =
     WorkspaceScopedFilter_fields self @ [(''scope_user'', ShareableFilter.scope_user self)]"

subsection \<open>apply\_filter\<close>

text \<open>
  Each \<^verbatim>\<open>apply_filter\<close> takes the object and the query and returns the query and
  the object as the call leaves it. \<open>base\<close> is \<^verbatim>\<open>BaseFilter.apply_filter\<close>, the end
  of every \<^verbatim>\<open>super()\<close> chain. A \<^verbatim>\<open>UUID\<close> object is always true in a condition, so
  \<^verbatim>\<open>if self.scope_user:\<close> tests the field against \<^verbatim>\<open>None\<close>.
\<close>

definition UserScopedFilter_apply_filter ::
  "(('b, 'z) UserScopedFilter_scheme \<Rightarrow> 's query \<Rightarrow> 's query) \<Rightarrow>
   ('b, 'z) UserScopedFilter_scheme \<Rightarrow> 's query \<Rightarrow> 's query \<times> ('b, 'z) UserScopedFilter_scheme" where
  "UserScopedFilter_apply_filter base self query =
     (let query = base self query in
      if UserScopedFilter.scope_user self \<noteq> None
      then (query_where query
              (Or_of [col_eq Col_user_id (UserScopedFilter.scope_user self)]), self)
      else (query, self))"

definition WorkspaceScopedFilter_apply_filter ::
  "(('b, 'z) WorkspaceScopedFilter_scheme \<Rightarrow> 's query \<Rightarrow> 's query) \<Rightarrow>
   ('b, 'z) WorkspaceScopedFilter_scheme \<Rightarrow> 's query \<Rightarrow>
   's query \<times> ('b, 'z) WorkspaceScopedFilter_scheme" where
  "WorkspaceScopedFilter_apply_filter base self query =
     (let query = base self query in
      if scope_workspace self \<noteq> None
      then (query_where query
              (Or_of [col_eq Col_workspace_id (scope_workspace self),
                      Is_null Col_workspace_id]), self)
      else (query, self))"

definition ShareableFilter_apply_filter ::
  "(('b, 'z) ShareableFilter_scheme \<Rightarrow> 's query \<Rightarrow> 's query) \<Rightarrow>
   ('b, 'z) ShareableFilter_scheme \<Rightarrow> 's query \<Rightarrow> 's query \<times> ('b, 'z) ShareableFilter_scheme" where
  "ShareableFilter_apply_filter base self query =
     (case WorkspaceScopedFilter_apply_filter base self query of (query, self) \<Rightarrow>
        if ShareableFilter.scope_user self \<noteq> None
        then (query_where query
                (Or_of [col_eq Col_user_id (ShareableFilter.scope_user self),
                        Is_shared_true]), self)
        else (query, self))"

definition ModelScopedFilter_apply_filter ::
  "(('b, 'z) ModelScopedFilter_scheme \<Rightarrow> 's query \<Rightarrow> 's query) \<Rightarrow>
   ('b, 'z) ModelScopedFilter_scheme \<Rightarrow> 's query \<Rightarrow> 's query \<times> ('b, 'z) ModelScopedFilter_scheme" where
  "ModelScopedFilter_apply_filter base self query =
     (case WorkspaceScopedFilter_apply_filter base self query of (query, self) \<Rightarrow>
        if private_model_id self \<noteq> None
        then (query_where query (col_eq Col_model_id (private_model_id self)), self)
        else (query, self))"

definition ModelVersionScopedFilter_apply_filter ::
  "(('b, 'z) ModelVersionScopedFilter_scheme \<Rightarrow> 's query \<Rightarrow> 's query) \<Rightarrow>
   ('b, 'z) ModelVersionScopedFilter_scheme \<Rightarrow> 's query \<Rightarrow>
   's query \<times> ('b, 'z) ModelVersionScopedFilter_scheme" where
  "ModelVersionScopedFilter_apply_filter base self query =
     (case ModelScopedFilter_apply_filter base self query of (query, self) \<Rightarrow>
        (query_where query (col_eq Col_model_version_id (private_model_version_id self)), self))"

text \<open>
  \<^verbatim>\<open>BaseFilter.apply_filter\<close> as an object of a given class reaches it: with the
  class's \<^verbatim>\<open>FILTER_EXCLUDE_FIELDS\<close> and the object's fields.
\<close>

definition BaseFilter_bound ::
  "('b, 's) BaseFilter_class \<Rightarrow> string list \<Rightarrow>
   (('b, 'z) BaseFilter_scheme \<Rightarrow> (string \<times> uuid option) list) \<Rightarrow>
   ('b, 'z) BaseFilter_scheme \<Rightarrow> 's query \<Rightarrow> 's query" where
  "BaseFilter_bound cls exclude fields_of self query =
     BaseFilter_apply_filter cls exclude (fields_of self) (base_fields self) query"

text \<open>A filter object of any of the five classes, and the call of its \<^verbatim>\<open>apply_filter\<close>.\<close>

datatype 'b scoped_filter =
    UserScoped "'b UserScopedFilter"
  | WorkspaceScoped "'b WorkspaceScopedFilter"
  | Shareable "'b ShareableFilter"
  | ModelScoped "'b ModelScopedFilter"
  | ModelVersionScoped "'b ModelVersionScopedFilter"

fun base_query :: "('b, 's) BaseFilter_class \<Rightarrow> 'b scoped_filter \<Rightarrow> 's query \<Rightarrow> 's query" where
  "base_query cls (UserScoped f) q =
     BaseFilter_bound cls (UserScopedFilter_FILTER_EXCLUDE_FIELDS cls) UserScopedFilter_fields f q"
| "base_query cls (WorkspaceScoped f) q =
     BaseFilter_bound cls (WorkspaceScopedFilter_FILTER_EXCLUDE_FIELDS cls)
       WorkspaceScopedFilter_fields f q"
| "base_query cls (Shareable f) q =
     BaseFilter_bound cls (ShareableFilter_FILTER_EXCLUDE_FIELDS cls) ShareableFilter_fields f q"
| "base_query cls (ModelScoped f) q =
     BaseFilter_bound cls (WorkspaceScopedFilter_FILTER_EXCLUDE_FIELDS cls)
       WorkspaceScopedFilter_fields f q"
| "base_query cls (ModelVersionScoped f) q =
     BaseFilter_bound cls (WorkspaceScopedFilter_FILTER_EXCLUDE_FIELDS cls)
       WorkspaceScopedFilter_fields f q"

fun apply_filter ::
  "('b, 's) BaseFilter_class \<Rightarrow> 'b scoped_filter \<Rightarrow> 's query \<Rightarrow> 's query \<times> 'b scoped_filter" where
  "apply_filter cls (UserScoped f) q =
     map_prod id UserScoped
       (UserScopedFilter_apply_filter (\<lambda>self. base_query cls (UserScoped self)) f q)"
| "apply_filter cls (WorkspaceScoped f) q =
     map_prod id WorkspaceScoped
       (WorkspaceScopedFilter_apply_filter (\<lambda>self. base_query cls (WorkspaceScoped self)) f q)"
| "apply_filter cls (Shareable f) q =
     map_prod id Shareable
       (ShareableFilter_apply_filter (\<lambda>self. base_query cls (Shareable self)) f q)"
| "apply_filter cls (ModelScoped f) q =
     map_prod id ModelScoped
       (ModelScopedFilter_apply_filter (\<lambda>self. base_query cls (ModelScoped self)) f q)"
| "apply_filter cls (ModelVersionScoped f) q =
     map_prod id ModelVersionScoped
       (ModelVersionScopedFilter_apply_filter (\<lambda>self. base_query cls (ModelVersionScoped self)) f q)"

section \<open>Setting the scope\<close>

text \<open>
  \<^verbatim>\<open>set_scope_user\<close> and \<^verbatim>\<open>set_scope_workspace\<close> take a \<^verbatim>\<open>UUID\<close> and store it.
\<close>

definition UserScopedFilter_set_scope_user ::
  "uuid \<Rightarrow> ('b, 'z) UserScopedFilter_scheme \<Rightarrow> ('b, 'z) UserScopedFilter_scheme" where
  "UserScopedFilter_set_scope_user user_id' self =
     self\<lparr>UserScopedFilter.scope_user := Some user_id'\<rparr>"

definition WorkspaceScopedFilter_set_scope_workspace ::
  "uuid \<Rightarrow> ('b, 'z) WorkspaceScopedFilter_scheme \<Rightarrow> ('b, 'z) WorkspaceScopedFilter_scheme" where
  "WorkspaceScopedFilter_set_scope_workspace workspace_id' self =
     self\<lparr>scope_workspace := Some workspace_id'\<rparr>"

definition ShareableFilter_set_scope_user ::
  "uuid \<Rightarrow> ('b, 'z) ShareableFilter_scheme \<Rightarrow> ('b, 'z) ShareableFilter_scheme" where
  "ShareableFilter_set_scope_user user_id' self =
     self\<lparr>ShareableFilter.scope_user := Some user_id'\<rparr>"

text \<open>
  \<^verbatim>\<open>set_scope_model\<close> and \<^verbatim>\<open>set_scope_model_version\<close> take a
  \<^verbatim>\<open>Union[str, UUID]\<close>. They first try \<^verbatim>\<open>UUID(str(x))\<close>; on \<^verbatim>\<open>ValueError\<close> they
  ask the client. Neither \<^verbatim>\<open>uuid.UUID\<close> nor \<^verbatim>\<open>zenml.client.Client\<close> is among the
  sources, so both are parameters: \<open>UUID_of_str s\<close> is \<open>None\<close> where \<^verbatim>\<open>UUID(s)\<close>
  raises \<^verbatim>\<open>ValueError\<close>; a client call yields the \<^verbatim>\<open>id\<close> of what it found or the
  exception it raised.
\<close>

datatype name_or_id = Str string | UUID uuid

text \<open>
  Modelled from the spec: the exceptions of the directory lookup
  (\<^verbatim>\<open>zenml/client.py\<close> is not among the sources) are the error kinds the
  specification names.
\<close>

datatype error = NotFoundError | AmbiguousReferenceError | PreconditionError

record env =
  UUID_of_str :: "string \<Rightarrow> uuid option"
  get_model :: "name_or_id \<Rightarrow> error + uuid"
  get_model_version :: "uuid option \<Rightarrow> name_or_id \<Rightarrow> error + uuid"

text \<open>
  \<^verbatim>\<open>UUID(str(x))\<close>: the string form of a \<^verbatim>\<open>UUID\<close> object parses back to that
  object; a string is handed to the constructor as it is.
\<close>

fun UUID_of :: "env \<Rightarrow> name_or_id \<Rightarrow> uuid option" where
  "UUID_of env (UUID u) = Some u"
| "UUID_of env (Str s) = UUID_of_str env s"

text \<open>
  A call of a setter: the exception it raised if any, the object as the call leaves
  it, and the client lookups it made, in order.
\<close>

datatype lookup = Get_model name_or_id | Get_model_version "uuid option" name_or_id

record 'f outcome =
  raised :: "error option"
  object :: 'f
  lookups :: "lookup list"

definition ModelScopedFilter_set_scope_model ::
  "env \<Rightarrow> name_or_id \<Rightarrow> ('b, 'z) ModelScopedFilter_scheme \<Rightarrow>
   ('b, 'z) ModelScopedFilter_scheme outcome" where
  "ModelScopedFilter_set_scope_model env model_name_or_id self =
     (case UUID_of env model_name_or_id of
        Some model_id' \<Rightarrow>
          \<lparr>raised = None, object = self\<lparr>private_model_id := Some model_id'\<rparr>, lookups = []\<rparr>
      | None \<Rightarrow>
          (case get_model env model_name_or_id of
             Inl e \<Rightarrow>
               \<lparr>raised = Some e, object = self, lookups = [Get_model model_name_or_id]\<rparr>
           | Inr model_id' \<Rightarrow>
               \<lparr>raised = None, object = self\<lparr>private_model_id := Some model_id'\<rparr>,
                lookups = [Get_model model_name_or_id]\<rparr>))"

definition ModelVersionScopedFilter_set_scope_model_version ::
  "env \<Rightarrow> name_or_id \<Rightarrow> ('b, 'z) ModelVersionScopedFilter_scheme \<Rightarrow>
   ('b, 'z) ModelVersionScopedFilter_scheme outcome" where
  "ModelVersionScopedFilter_set_scope_model_version env model_version_name_or_id self =
     (case UUID_of env model_version_name_or_id of
        Some model_version_id' \<Rightarrow>
          \<lparr>raised = None,
           object = self\<lparr>private_model_version_id := Some model_version_id'\<rparr>,
           lookups = []\<rparr>
      | None \<Rightarrow>
          (case get_model_version env (private_model_id self) model_version_name_or_id of
             Inl e \<Rightarrow>
               \<lparr>raised = Some e, object = self,
                lookups = [Get_model_version (private_model_id self) model_version_name_or_id]\<rparr>
           | Inr model_version_id' \<Rightarrow>
               \<lparr>raised = None,
                object = self\<lparr>private_model_version_id := Some model_version_id'\<rparr>,
                lookups = [Get_model_version (private_model_id self) model_version_name_or_id]\<rparr>))"

section \<open>apply_filter on a table that may lack columns\<close>









section \<open>Predicates on filter objects\<close>

text \<open>
  The workspace scope of a filter object of any class (a \<^verbatim>\<open>UserScopedFilter\<close> has
  none), and whether no scope at all is set on it.
\<close>

fun workspace_scope :: "'b scoped_filter \<Rightarrow> uuid option" where
  "workspace_scope (UserScoped f) = None"
| "workspace_scope (WorkspaceScoped f) = scope_workspace f"
| "workspace_scope (Shareable f) = scope_workspace f"
| "workspace_scope (ModelScoped f) = scope_workspace f"
| "workspace_scope (ModelVersionScoped f) = scope_workspace f"

fun unscoped :: "'b scoped_filter \<Rightarrow> bool" where
  "unscoped (UserScoped f) = (UserScopedFilter.scope_user f = None)"
| "unscoped (WorkspaceScoped f) = (scope_workspace f = None)"
| "unscoped (Shareable f) = (scope_workspace f = None \<and> ShareableFilter.scope_user f = None)"
| "unscoped (ModelScoped f) = (scope_workspace f = None \<and> private_model_id f = None)"
| "unscoped (ModelVersionScoped f) =
     (scope_workspace f = None \<and> private_model_id f = None \<and> private_model_version_id f = None)"

fun is_ModelVersionScoped :: "'b scoped_filter \<Rightarrow> bool" where
  "is_ModelVersionScoped (ModelVersionScoped f) = True"
| "is_ModelVersionScoped f = False"

text \<open>
  \<^verbatim>\<open>BaseFilter.apply_filter\<close> honours \<^verbatim>\<open>FILTER_EXCLUDE_FIELDS\<close> when the fields
  named there make no difference to the query it returns.
\<close>

definition skips_excluded :: "('b, 's) BaseFilter_class \<Rightarrow> bool" where
  "skips_excluded cls =
     (\<forall>exclude flds b q.
        BaseFilter_apply_filter cls exclude flds b q =
        BaseFilter_apply_filter cls exclude
          (filter (\<lambda>kv. fst kv \<notin> set exclude) flds) b q)"

section \<open>Example objects\<close>

text \<open>
  A \<^verbatim>\<open>BaseFilter\<close> that turns every field that is set and not excluded into a
  criterion of its own, a parser and a client, and filter objects and rows on which
  the theorems below are evaluated.
\<close>

definition example_class :: "(unit, unit) BaseFilter_class" where
  "example_class =
     \<lparr>BaseFilter_FILTER_EXCLUDE_FIELDS = [''sort_by'', ''page'', ''size'', ''logical_operator''],
      BaseFilter_CLI_EXCLUDE_FIELDS = [],
      BaseFilter_apply_filter =
        (\<lambda>exclude flds b q.
           foldl query_where q
             (map (\<lambda>kv. Criterion (\<lambda>r. Some (user_id r = snd kv)))
                (filter (\<lambda>kv. fst kv \<notin> set exclude \<and> snd kv \<noteq> None) flds)))\<rparr>"

definition example_env :: env where
  "example_env =
     \<lparr>UUID_of_str =
        (\<lambda>s. if s = ''00000000-0000-0000-0000-000000000007'' then Some 7 else None),
      get_model =
        (\<lambda>x. if x = Str ''my-model'' then Inl AmbiguousReferenceError
             else if x = Str ''model-a'' then Inr 1
             else Inl NotFoundError),
      get_model_version =
        (\<lambda>m x. if m = Some 1 \<and> x = Str ''v1'' then Inr 11 else Inl NotFoundError)\<rparr>"

definition example_query :: "unit query" where
  "example_query = \<lparr>statement = (), whereclause = []\<rparr>"

definition example_user_filter :: "unit UserScopedFilter" where
  "example_user_filter = \<lparr>base_fields = (), UserScopedFilter.scope_user = Some 1\<rparr>"

definition example_shareable_filter :: "unit ShareableFilter" where
  "example_shareable_filter =
     \<lparr>base_fields = (), scope_workspace = Some 21, ShareableFilter.scope_user = Some 1\<rparr>"

definition example_workspace_filter :: "unit WorkspaceScopedFilter" where
  "example_workspace_filter = \<lparr>base_fields = (), scope_workspace = Some 21\<rparr>"

definition fresh_model_version_filter :: "unit ModelVersionScopedFilter" where
  "fresh_model_version_filter =
     \<lparr>base_fields = (), scope_workspace = None, private_model_id = None,
      private_model_version_id = None\<rparr>"

definition example_row :: resource where
  "example_row =
     \<lparr>user_id = Some 2, workspace_id = Some 22, is_shared = True, model_id = Some 1,
      model_version_id = Some 11\<rparr>"

definition example_own_row :: resource where
  "example_own_row =
     \<lparr>user_id = Some 1, workspace_id = Some 21, is_shared = False, model_id = None,
      model_version_id = None\<rparr>"

definition fresh_shareable_filter :: "unit ShareableFilter" where
  "fresh_shareable_filter =
     \<lparr>base_fields = (), scope_workspace = None, ShareableFilter.scope_user = None\<rparr>"




section \<open>Auxiliary facts\<close>

lemma or3_true: "(or3 a b = Some True) = (a = Some True \<or> b = Some True)"
  by (induction a b rule: or3.induct) auto

lemma selects_query_where:
  "selects (query_where q e) r = (selects q r \<and> truth r e = Some True)"
  by (simp add: selects_def query_where_def)

lemma truth_user_clause:
  "(truth r (Or_of [col_eq Col_user_id (Some U)]) = Some True) = (user_id r = Some U)"
  by (cases "user_id r") (auto simp: or3_true)

lemma truth_workspace_clause:
  "(truth r (Or_of [col_eq Col_workspace_id (Some W), Is_null Col_workspace_id]) = Some True)
     = (workspace_id r = Some W \<or> workspace_id r = None)"
  by (cases "workspace_id r") (auto simp: or3_true)

lemma truth_shared_clause:
  "(truth r (Or_of [col_eq Col_user_id (Some U), Is_shared_true]) = Some True)
     = (user_id r = Some U \<or> is_shared r)"
  by (cases "user_id r"; cases "is_shared r") (auto simp: or3_true)

lemmas apply_filter_defs =
  UserScopedFilter_apply_filter_def WorkspaceScopedFilter_apply_filter_def
  ShareableFilter_apply_filter_def ModelScopedFilter_apply_filter_def
  ModelVersionScopedFilter_apply_filter_def

lemmas exclude_defs =
  UserScopedFilter_FILTER_EXCLUDE_FIELDS_def UserScopedFilter_CLI_EXCLUDE_FIELDS_def
  WorkspaceScopedFilter_FILTER_EXCLUDE_FIELDS_def WorkspaceScopedFilter_CLI_EXCLUDE_FIELDS_def
  ShareableFilter_FILTER_EXCLUDE_FIELDS_def ShareableFilter_CLI_EXCLUDE_FIELDS_def

lemmas fields_defs =
  UserScopedFilter_fields_def WorkspaceScopedFilter_fields_def ShareableFilter_fields_def

lemmas example_defs =
  example_class_def example_query_def example_user_filter_def example_shareable_filter_def
  example_workspace_filter_def fresh_model_version_filter_def fresh_shareable_filter_def
  example_row_def example_own_row_def

lemma workspace_selected:
  "scope_workspace self = Some W \<Longrightarrow>
     selects (fst (WorkspaceScopedFilter_apply_filter base self query)) r \<Longrightarrow>
     workspace_id r = Some W \<or> workspace_id r = None"
  by (simp add: WorkspaceScopedFilter_apply_filter_def Let_def selects_query_where
      truth_workspace_clause del: col_eq.simps truth.simps)

lemma apply_filter_selects_super:
  "selects (fst (ShareableFilter_apply_filter bs s q)) r \<Longrightarrow>
     selects (fst (WorkspaceScopedFilter_apply_filter bs s q)) r"
  "selects (fst (ModelScopedFilter_apply_filter bm m q)) r \<Longrightarrow>
     selects (fst (WorkspaceScopedFilter_apply_filter bm m q)) r"
  "selects (fst (ModelVersionScopedFilter_apply_filter bv v q)) r \<Longrightarrow>
     selects (fst (ModelScopedFilter_apply_filter bv v q)) r"
  "selects (fst (WorkspaceScopedFilter_apply_filter bw w q)) r \<Longrightarrow> selects (bw w q) r"
  "selects (fst (UserScopedFilter_apply_filter bu u q)) r \<Longrightarrow> selects (bu u q) r"
  by (auto simp: apply_filter_defs Let_def selects_query_where split: prod.splits if_splits)

lemma excluded_fields_skipped:
  assumes "skips_excluded cls" and "list_all (\<lambda>kv. fst kv \<in> set exclude) flds"
  shows "BaseFilter_apply_filter cls exclude flds b q = BaseFilter_apply_filter cls exclude [] b q"
proof -
  have "filter (\<lambda>kv. fst kv \<notin> set exclude) flds = []"
    using assms(2) by (induction flds) auto
  moreover have "BaseFilter_apply_filter cls exclude flds b q =
      BaseFilter_apply_filter cls exclude (filter (\<lambda>kv. fst kv \<notin> set exclude) flds) b q"
    using assms(1) unfolding skips_excluded_def by blast
  ultimately show ?thesis by simp
qed

lemma base_query_skips:
  assumes "skips_excluded cls"
  shows "base_query cls f q =
    BaseFilter_apply_filter cls
      (case f of UserScoped u \<Rightarrow> UserScopedFilter_FILTER_EXCLUDE_FIELDS cls
         | Shareable s \<Rightarrow> ShareableFilter_FILTER_EXCLUDE_FIELDS cls
         | _ \<Rightarrow> WorkspaceScopedFilter_FILTER_EXCLUDE_FIELDS cls)
      []
      (case f of UserScoped u \<Rightarrow> base_fields u | WorkspaceScoped w \<Rightarrow> base_fields w
         | Shareable s \<Rightarrow> base_fields s | ModelScoped m \<Rightarrow> base_fields m
         | ModelVersionScoped v \<Rightarrow> base_fields v) q"
proof -
  note skip = excluded_fields_skipped [OF assms, of _ "kv # kvs" for kv kvs]
  show ?thesis
    by (cases f) (simp_all add: BaseFilter_bound_def skip exclude_defs fields_defs)
qed

lemma filter_excluded_twice:
  "filter (\<lambda>x. P x \<and> Q x) (filter P xs) = filter (\<lambda>x. P x \<and> Q x) xs"
  by (induction xs) simp_all

lemma example_class_skips: "skips_excluded example_class"
  unfolding skips_excluded_def example_class_def
  by (simp add: filter_excluded_twice del: filter_filter)














section \<open>Setting the model-version scope without a model scope\<close>

text \<open>
  Claim C1, as amended. \<^verbatim>\<open>set_scope_model_version\<close> called while no model scope is
  resolved makes no check of the model scope. A reference that parses as an identifier
  is stored and the call returns, without any lookup. Any other reference is handed to
  the client's \<^verbatim>\<open>get_model_version\<close> with the model unset: the call raises exactly the
  error that lookup raises, and stores the identifier it returns otherwise.
\<close>

theorem set_scope_model_version_unchecked:
  assumes "private_model_id self = None"
  shows "raised (ModelVersionScopedFilter_set_scope_model_version env x self) =
           (case UUID_of env x of
              Some v \<Rightarrow> None
            | None \<Rightarrow> (case get_model_version env None x of Inl e \<Rightarrow> Some e | Inr v \<Rightarrow> None))
       \<and> lookups (ModelVersionScopedFilter_set_scope_model_version env x self) =
           (case UUID_of env x of Some v \<Rightarrow> [] | None \<Rightarrow> [Get_model_version None x])
       \<and> private_model_version_id
            (object (ModelVersionScopedFilter_set_scope_model_version env x self)) =
           (case UUID_of env x of
              Some v \<Rightarrow> Some v
            | None \<Rightarrow> (case get_model_version env None x of
                         Inl e \<Rightarrow> private_model_version_id self
                       | Inr v \<Rightarrow> Some v))"
  using assms
  by (simp add: ModelVersionScopedFilter_set_scope_model_version_def
      split: option.splits sum.splits)

text \<open>
  On a fresh filter, an identifier is stored without a lookup, and the name \<open>v1\<close> fails
  with the client's \<open>NotFoundError\<close>.
\<close>

theorem set_scope_model_version_unchecked_witness:
  "private_model_id fresh_model_version_filter = None
   \<and> raised (ModelVersionScopedFilter_set_scope_model_version example_env (UUID 7)
               fresh_model_version_filter) = None
   \<and> lookups (ModelVersionScopedFilter_set_scope_model_version example_env (UUID 7)
               fresh_model_version_filter) = []
   \<and> private_model_version_id
        (object (ModelVersionScopedFilter_set_scope_model_version example_env (UUID 7)
                   fresh_model_version_filter)) = Some 7
   \<and> raised (ModelVersionScopedFilter_set_scope_model_version example_env (Str ''v1'')
               fresh_model_version_filter) = Some NotFoundError"
proof -
  have h: "private_model_id fresh_model_version_filter = None"
    by (simp add: fresh_model_version_filter_def)
  show ?thesis
    using h set_scope_model_version_unchecked [OF h, of example_env "UUID 7"]
      set_scope_model_version_unchecked [OF h, of example_env "Str ''v1''"]
    by (simp add: example_env_def)
qed

text \<open>
  The claim as stated fails: with no model scope set, an identifier reference does not
  raise \<open>PreconditionError\<close>.
\<close>

theorem set_scope_model_version_no_precondition_error:
  "private_model_id fresh_model_version_filter = None \<and>
   raised (ModelVersionScopedFilter_set_scope_model_version example_env (UUID 7)
             fresh_model_version_filter) \<noteq> Some PreconditionError"
  by (simp add: fresh_model_version_filter_def
      ModelVersionScopedFilter_set_scope_model_version_def)

section \<open>Filters with no scope set\<close>

text \<open>
  Claim C2, as amended. Applied to a filter on which no scope is set, the filter classes
  \<^verbatim>\<open>UserScopedFilter\<close>, \<^verbatim>\<open>WorkspaceScopedFilter\<close>, \<^verbatim>\<open>ShareableFilter\<close> and
  \<^verbatim>\<open>ModelScopedFilter\<close> return the query that \<^verbatim>\<open>BaseFilter.apply_filter\<close> returns,
  unchanged. A \<^verbatim>\<open>ModelVersionScopedFilter\<close> adds its model-version criterion always:
  with nothing set it returns that query with the one criterion
  \<^verbatim>\<open>model_version_id == None\<close> added.
\<close>

theorem unscoped_apply_filter:
  assumes "unscoped f"
  shows "fst (apply_filter cls f q) =
    (if is_ModelVersionScoped f
     then query_where (base_query cls f q) (col_eq Col_model_version_id None)
     else base_query cls f q)"
  using assms by (cases f) (simp_all add: apply_filter_defs Let_def)

theorem unscoped_apply_filter_witness:
  "unscoped (Shareable fresh_shareable_filter)
   \<and> fst (apply_filter example_class (Shareable fresh_shareable_filter) example_query)
       = base_query example_class (Shareable fresh_shareable_filter) example_query
   \<and> unscoped (ModelVersionScoped fresh_model_version_filter)
   \<and> fst (apply_filter example_class (ModelVersionScoped fresh_model_version_filter)
            example_query)
       = query_where
           (base_query example_class (ModelVersionScoped fresh_model_version_filter)
              example_query)
           (Is_null Col_model_version_id)"
proof -
  have h1: "unscoped (Shareable fresh_shareable_filter)"
    by (simp add: fresh_shareable_filter_def)
  have h2: "unscoped (ModelVersionScoped fresh_model_version_filter)"
    by (simp add: fresh_model_version_filter_def)
  show ?thesis
    using h1 h2 unscoped_apply_filter [OF h1, of example_class example_query]
      unscoped_apply_filter [OF h2, of example_class example_query]
    by simp
qed

text \<open>
  The claim as stated fails for \<^verbatim>\<open>ModelVersionScopedFilter\<close>: with no scope set, the
  filtered query differs from the base query, and a row of the base query whose
  \<^verbatim>\<open>model_version_id\<close> is set is no longer selected.
\<close>

theorem model_version_filter_not_identity:
  "unscoped (ModelVersionScoped fresh_model_version_filter)
   \<and> fst (apply_filter example_class (ModelVersionScoped fresh_model_version_filter)
            example_query)
       \<noteq> base_query example_class (ModelVersionScoped fresh_model_version_filter)
            example_query
   \<and> selects (base_query example_class (ModelVersionScoped fresh_model_version_filter)
                example_query) example_row
   \<and> \<not> selects (fst (apply_filter example_class
                         (ModelVersionScoped fresh_model_version_filter) example_query))
          example_row"
  by (simp add: fresh_model_version_filter_def example_class_def example_query_def
      example_row_def apply_filter_defs BaseFilter_bound_def WorkspaceScopedFilter_fields_def
      WorkspaceScopedFilter_FILTER_EXCLUDE_FIELDS_def query_where_def selects_def)

section \<open>The user scope\<close>

text \<open>
  Claim C3. With \<^verbatim>\<open>scope_user\<close> set to \<open>U\<close> on a \<^verbatim>\<open>ShareableFilter\<close>, a row is
  selected iff it was selected before the user criterion was added and its owner is
  \<open>U\<close> or it is shared. On a \<^verbatim>\<open>UserScopedFilter\<close> a row is selected iff it was
  selected before and its owner is \<open>U\<close>: being shared does not count.
\<close>

theorem user_scope_owner_or_shared:
  "(ShareableFilter.scope_user self = Some U \<longrightarrow>
      selects (fst (ShareableFilter_apply_filter base self query)) r
        = (selects (fst (WorkspaceScopedFilter_apply_filter base self query)) r
           \<and> (user_id r = Some U \<or> is_shared r)))
   \<and> (UserScopedFilter.scope_user self' = Some U \<longrightarrow>
      selects (fst (UserScopedFilter_apply_filter base' self' query)) r
        = (selects (base' self' query) r \<and> user_id r = Some U))"
  by (simp add: ShareableFilter_apply_filter_def UserScopedFilter_apply_filter_def
      WorkspaceScopedFilter_apply_filter_def Let_def selects_query_where
      truth_user_clause truth_shared_clause del: col_eq.simps truth.simps)

text \<open>
  A shared row of another owner is selected by the shareable filter of user 1 and not
  by the plain user-scoped filter of user 1.
\<close>

theorem user_scope_owner_or_shared_witness:
  "ShareableFilter.scope_user (fresh_shareable_filter\<lparr>ShareableFilter.scope_user := Some 1\<rparr>)
     = Some 1
   \<and> selects (fst (ShareableFilter_apply_filter (\<lambda>self q. q)
        (fresh_shareable_filter\<lparr>ShareableFilter.scope_user := Some 1\<rparr>) example_query))
        example_row
   \<and> UserScopedFilter.scope_user example_user_filter = Some 1
   \<and> \<not> selects (fst (UserScopedFilter_apply_filter (\<lambda>self q. q) example_user_filter
        example_query)) example_row"
proof -
  let ?s = "fresh_shareable_filter\<lparr>ShareableFilter.scope_user := Some 1\<rparr>"
  have h1: "ShareableFilter.scope_user ?s = Some 1"
    by simp
  have h2: "UserScopedFilter.scope_user example_user_filter = Some 1"
    by (simp add: example_user_filter_def)
  have before: "selects (fst (WorkspaceScopedFilter_apply_filter (\<lambda>self q. q) ?s example_query))
      example_row"
    by (simp add: WorkspaceScopedFilter_apply_filter_def fresh_shareable_filter_def
        example_query_def selects_def)
  have row: "is_shared example_row" "user_id example_row \<noteq> Some 1"
    by (simp_all add: example_row_def)
  note c = user_scope_owner_or_shared [of ?s 1 "\<lambda>self q. q" example_query example_row
      example_user_filter "\<lambda>self q. q"]
  from c h1 before row(1)
  have a: "selects (fst (ShareableFilter_apply_filter (\<lambda>self q. q) ?s example_query)) example_row"
    by blast
  from c h2 row(2)
  have b: "\<not> selects (fst (UserScopedFilter_apply_filter (\<lambda>self q. q) example_user_filter
        example_query)) example_row"
    by blast
  from h1 a h2 b show ?thesis by blast
qed

section \<open>The workspace scope\<close>

text \<open>
  Claim C4. With \<^verbatim>\<open>scope_workspace\<close> set to \<open>W\<close>, a row is selected iff it was
  selected before the workspace criterion was added and its workspace is \<open>W\<close> or is
  unset (NULL). A row of another workspace is therefore excluded.
\<close>

theorem workspace_scope_member_or_global:
  assumes "scope_workspace self = Some W"
  shows "selects (fst (WorkspaceScopedFilter_apply_filter base self query)) r
       = (selects (base self query) r \<and> (workspace_id r = Some W \<or> workspace_id r = None))"
  using assms
  by (simp add: WorkspaceScopedFilter_apply_filter_def Let_def selects_query_where
      truth_workspace_clause del: col_eq.simps truth.simps)

text \<open>
  Under the scope of workspace 21, the row of workspace 21 is selected and the row of
  workspace 22 is not.
\<close>

theorem workspace_scope_member_or_global_witness:
  "scope_workspace example_workspace_filter = Some 21
   \<and> selects (fst (WorkspaceScopedFilter_apply_filter (\<lambda>self q. q) example_workspace_filter
        example_query)) example_own_row
   \<and> \<not> selects (fst (WorkspaceScopedFilter_apply_filter (\<lambda>self q. q) example_workspace_filter
        example_query)) example_row"
proof -
  have h: "scope_workspace example_workspace_filter = Some 21"
    by (simp add: example_workspace_filter_def)
  have q: "selects example_query r" for r
    by (simp add: example_query_def selects_def)
  have rows: "workspace_id example_own_row = Some 21" "workspace_id example_row = Some 22"
    by (simp_all add: example_own_row_def example_row_def)
  show ?thesis
    using h q rows
      workspace_scope_member_or_global [OF h, of "\<lambda>self q. q" example_query example_own_row]
      workspace_scope_member_or_global [OF h, of "\<lambda>self q. q" example_query example_row]
    by simp
qed

section \<open>Composition with the criteria already on the query\<close>

text \<open>
  Claim C5. Applying a scope filter of any class removes no criterion: the query it
  returns is the query of \<^verbatim>\<open>BaseFilter.apply_filter\<close> with criteria added at the end
  of its \<^verbatim>\<open>where\<close> list, so a row the filtered query selects is a row the base query
  selects. The criteria of different scopes are joined by AND, the conditions inside
  one scope by OR: with workspace \<open>W\<close> and user \<open>U\<close> set on a \<^verbatim>\<open>ShareableFilter\<close>, a
  row is selected iff the base query selects it, and its workspace is \<open>W\<close> or NULL,
  and its owner is \<open>U\<close> or it is shared.
\<close>

theorem apply_filter_and_composition:
  "(selects (fst (apply_filter cls f q)) r \<longrightarrow> selects (base_query cls f q) r)
   \<and> (\<exists>cs. fst (apply_filter cls f q) =
         (base_query cls f q)\<lparr>whereclause := whereclause (base_query cls f q) @ cs\<rparr>)
   \<and> (scope_workspace s = Some W \<and> ShareableFilter.scope_user s = Some U \<longrightarrow>
        selects (fst (apply_filter cls (Shareable s) q)) r =
          (selects (base_query cls (Shareable s) q) r
           \<and> (workspace_id r = Some W \<or> workspace_id r = None)
           \<and> (user_id r = Some U \<or> is_shared r)))"
proof (intro conjI)
  show "selects (fst (apply_filter cls f q)) r \<longrightarrow> selects (base_query cls f q) r"
    by (cases f) (auto dest!: apply_filter_selects_super)
  show "\<exists>cs. fst (apply_filter cls f q) =
         (base_query cls f q)\<lparr>whereclause := whereclause (base_query cls f q) @ cs\<rparr>"
    by (cases f) (auto simp: apply_filter_defs Let_def query_where_def split: prod.splits
        intro: exI [of _ "[]"])
  show "scope_workspace s = Some W \<and> ShareableFilter.scope_user s = Some U \<longrightarrow>
        selects (fst (apply_filter cls (Shareable s) q)) r =
          (selects (base_query cls (Shareable s) q) r
           \<and> (workspace_id r = Some W \<or> workspace_id r = None)
           \<and> (user_id r = Some U \<or> is_shared r))"
    by (simp add: apply_filter_defs Let_def selects_query_where truth_workspace_clause
        truth_shared_clause del: col_eq.simps truth.simps)
qed

text \<open>
  The row of user 1 in workspace 21 is selected under both scopes, and so by the base
  query; the shared row of workspace 22 is not, though the base query selects it.
\<close>

theorem apply_filter_and_composition_witness:
  "selects (fst (apply_filter example_class (Shareable example_shareable_filter)
      example_query)) example_own_row
   \<and> selects (base_query example_class (Shareable example_shareable_filter) example_query)
      example_own_row
   \<and> selects (base_query example_class (Shareable example_shareable_filter) example_query)
      example_row
   \<and> \<not> selects (fst (apply_filter example_class (Shareable example_shareable_filter)
      example_query)) example_row"
proof -
  have h: "scope_workspace example_shareable_filter = Some 21
      \<and> ShareableFilter.scope_user example_shareable_filter = Some 1"
    by (simp add: example_shareable_filter_def)
  have base: "selects (base_query example_class (Shareable example_shareable_filter)
      example_query) r" for r
    by (simp add: BaseFilter_bound_def example_class_def ShareableFilter_fields_def
        WorkspaceScopedFilter_fields_def exclude_defs example_query_def selects_def)
  have own: "workspace_id example_own_row = Some 21" "user_id example_own_row = Some 1"
    by (simp_all add: example_own_row_def)
  have other: "workspace_id example_row = Some 22"
    by (simp add: example_row_def)
  note c = apply_filter_and_composition [of example_class "Shareable example_shareable_filter"
      example_query _ example_shareable_filter 21 1]
  from c [of example_own_row] h base own
  have a: "selects (fst (apply_filter example_class (Shareable example_shareable_filter)
      example_query)) example_own_row"
    by blast
  from c [of example_own_row] a
  have b: "selects (base_query example_class (Shareable example_shareable_filter)
      example_query) example_own_row"
    by blast
  from c [of example_row] h other
  have d: "\<not> selects (fst (apply_filter example_class (Shareable example_shareable_filter)
      example_query)) example_row"
    by simp
  from a b base [of example_row] d show ?thesis by blast
qed

section \<open>References that are identifiers\<close>

text \<open>
  Claim C6. A reference that \<^verbatim>\<open>UUID(str(x))\<close> accepts is stored as that identifier by
  \<^verbatim>\<open>set_scope_model\<close> and by \<^verbatim>\<open>set_scope_model_version\<close>, the call returns and makes
  no client lookup. Exactly one lookup is made when the reference does not parse, and
  only then.
\<close>

theorem uuid_reference_no_lookup:
  "(UUID_of env x = Some u \<longrightarrow>
      ModelScopedFilter_set_scope_model env x self =
        \<lparr>raised = None, object = self\<lparr>private_model_id := Some u\<rparr>, lookups = []\<rparr>
      \<and> ModelVersionScopedFilter_set_scope_model_version env x self' =
        \<lparr>raised = None, object = self'\<lparr>private_model_version_id := Some u\<rparr>, lookups = []\<rparr>)
   \<and> (UUID_of env x = None \<longrightarrow>
      lookups (ModelScopedFilter_set_scope_model env x self) = [Get_model x]
      \<and> lookups (ModelVersionScopedFilter_set_scope_model_version env x self') =
          [Get_model_version (private_model_id self') x])"
  by (simp add: ModelScopedFilter_set_scope_model_def
      ModelVersionScopedFilter_set_scope_model_version_def split: sum.splits)

theorem uuid_reference_no_lookup_witness:
  "UUID_of example_env (Str ''00000000-0000-0000-0000-000000000007'') = Some 7
   \<and> ModelScopedFilter_set_scope_model example_env
       (Str ''00000000-0000-0000-0000-000000000007'') fresh_model_version_filter =
       \<lparr>raised = None, object = fresh_model_version_filter\<lparr>private_model_id := Some 7\<rparr>,
        lookups = []\<rparr>
   \<and> UUID_of example_env (Str ''model-a'') = None
   \<and> lookups (ModelScopedFilter_set_scope_model example_env (Str ''model-a'')
                fresh_model_version_filter) = [Get_model (Str ''model-a'')]"
proof -
  have h1: "UUID_of example_env (Str ''00000000-0000-0000-0000-000000000007'') = Some 7"
    by (simp add: example_env_def)
  have h2: "UUID_of example_env (Str ''model-a'') = None"
    by (simp add: example_env_def)
  show ?thesis
    using h1 h2
      uuid_reference_no_lookup [of example_env "Str ''00000000-0000-0000-0000-000000000007''" 7
            fresh_model_version_filter fresh_model_version_filter]
      uuid_reference_no_lookup [of example_env "Str ''model-a''" 7
            fresh_model_version_filter fresh_model_version_filter]
    by simp
qed

section \<open>Failures of the setters and of applying the filter\<close>




section \<open>Shared rows of another workspace\<close>

text \<open>
  Claim C8. Under a workspace scope \<open>W\<close>, a shared row whose workspace is set and is
  not \<open>W\<close> is excluded, whatever the class of the filter and whatever its user scope:
  \<^verbatim>\<open>is_shared\<close> widens the user criterion only.
\<close>

theorem workspace_scope_ignores_is_shared:
  assumes "workspace_scope f = Some W" and "is_shared r"
    and "workspace_id r = Some W'" and "W' \<noteq> W"
  shows "\<not> selects (fst (apply_filter cls f q)) r"
proof (cases f)
  case (UserScoped u)
  with assms show ?thesis by simp
next
  case (WorkspaceScoped w)
  with assms show ?thesis
    by (auto dest: workspace_selected)
next
  case (Shareable s)
  with assms show ?thesis
    by (auto dest!: apply_filter_selects_super(1) dest: workspace_selected)
next
  case (ModelScoped m)
  with assms show ?thesis
    by (auto dest!: apply_filter_selects_super(2) dest: workspace_selected)
next
  case (ModelVersionScoped v)
  with assms show ?thesis
    by (auto dest!: apply_filter_selects_super(3) apply_filter_selects_super(2)
        dest: workspace_selected)
qed

theorem workspace_scope_ignores_is_shared_witness:
  "workspace_scope (Shareable example_shareable_filter) = Some 21
   \<and> is_shared example_row
   \<and> workspace_id example_row = Some 22
   \<and> (22 :: uuid) \<noteq> 21
   \<and> \<not> selects (fst (apply_filter example_class (Shareable example_shareable_filter)
          example_query)) example_row"
proof -
  have h1: "workspace_scope (Shareable example_shareable_filter) = Some 21"
    by (simp add: example_shareable_filter_def)
  have h2: "is_shared example_row"
    by (simp add: example_row_def)
  have h3: "workspace_id example_row = Some 22"
    by (simp add: example_row_def)
  have h4: "(22 :: uuid) \<noteq> 21"
    by simp
  from h1 h2 h3 h4
    workspace_scope_ignores_is_shared [OF h1 h2 h3 h4, of example_class example_query]
  show ?thesis by blast
qed

section \<open>The scope fields and the generic field processing\<close>

text \<open>
  Claim C9. \<^verbatim>\<open>scope_user\<close> and \<^verbatim>\<open>scope_workspace\<close> are listed in
  \<^verbatim>\<open>FILTER_EXCLUDE_FIELDS\<close> and in \<^verbatim>\<open>CLI_EXCLUDE_FIELDS\<close> of every class that
  declares or inherits them, whatever \<^verbatim>\<open>BaseFilter\<close> lists. Hence, for a
  \<^verbatim>\<open>BaseFilter.apply_filter\<close> that skips the fields named in
  \<^verbatim>\<open>FILTER_EXCLUDE_FIELDS\<close>, the query it returns is the same whatever the scope
  fields hold, and setting a scope changes the filtered query by the scope criterion
  and by nothing else.
\<close>

theorem scope_fields_excluded:
  "''scope_user'' \<in> set (UserScopedFilter_FILTER_EXCLUDE_FIELDS cls)
   \<and> ''scope_user'' \<in> set (UserScopedFilter_CLI_EXCLUDE_FIELDS cls)
   \<and> ''scope_workspace'' \<in> set (WorkspaceScopedFilter_FILTER_EXCLUDE_FIELDS cls)
   \<and> ''scope_workspace'' \<in> set (WorkspaceScopedFilter_CLI_EXCLUDE_FIELDS cls)
   \<and> ''scope_user'' \<in> set (ShareableFilter_FILTER_EXCLUDE_FIELDS cls)
   \<and> ''scope_user'' \<in> set (ShareableFilter_CLI_EXCLUDE_FIELDS cls)
   \<and> ''scope_workspace'' \<in> set (ShareableFilter_FILTER_EXCLUDE_FIELDS cls)
   \<and> ''scope_workspace'' \<in> set (ShareableFilter_CLI_EXCLUDE_FIELDS cls)
   \<and> (skips_excluded cls \<longrightarrow>
        base_query cls (UserScoped (u\<lparr>UserScopedFilter.scope_user := a\<rparr>)) q
          = base_query cls (UserScoped u) q
        \<and> base_query cls (WorkspaceScoped (w\<lparr>scope_workspace := a\<rparr>)) q
          = base_query cls (WorkspaceScoped w) q
        \<and> base_query cls (Shareable (s\<lparr>scope_workspace := a, ShareableFilter.scope_user := b\<rparr>)) q
          = base_query cls (Shareable s) q
        \<and> base_query cls (ModelScoped (m\<lparr>scope_workspace := a\<rparr>)) q
          = base_query cls (ModelScoped m) q
        \<and> base_query cls (ModelVersionScoped (v\<lparr>scope_workspace := a\<rparr>)) q
          = base_query cls (ModelVersionScoped v) q
        \<and> fst (apply_filter cls (UserScoped (u\<lparr>UserScopedFilter.scope_user := Some c\<rparr>)) q)
          = query_where (base_query cls (UserScoped (u\<lparr>UserScopedFilter.scope_user := None\<rparr>)) q)
              (Or_of [Equals Col_user_id c])
        \<and> fst (apply_filter cls (WorkspaceScoped (w\<lparr>scope_workspace := Some c\<rparr>)) q)
          = query_where (base_query cls (WorkspaceScoped (w\<lparr>scope_workspace := None\<rparr>)) q)
              (Or_of [Equals Col_workspace_id c, Is_null Col_workspace_id]))"
proof -
  have listed:
    "''scope_user'' \<in> set (UserScopedFilter_FILTER_EXCLUDE_FIELDS cls)"
    "''scope_user'' \<in> set (UserScopedFilter_CLI_EXCLUDE_FIELDS cls)"
    "''scope_workspace'' \<in> set (WorkspaceScopedFilter_FILTER_EXCLUDE_FIELDS cls)"
    "''scope_workspace'' \<in> set (WorkspaceScopedFilter_CLI_EXCLUDE_FIELDS cls)"
    "''scope_user'' \<in> set (ShareableFilter_FILTER_EXCLUDE_FIELDS cls)"
    "''scope_user'' \<in> set (ShareableFilter_CLI_EXCLUDE_FIELDS cls)"
    "''scope_workspace'' \<in> set (ShareableFilter_FILTER_EXCLUDE_FIELDS cls)"
    "''scope_workspace'' \<in> set (ShareableFilter_CLI_EXCLUDE_FIELDS cls)"
    by (simp_all add: exclude_defs)
  have indep: "base_query cls (UserScoped (u\<lparr>UserScopedFilter.scope_user := a\<rparr>)) q
          = base_query cls (UserScoped u) q
        \<and> base_query cls (WorkspaceScoped (w\<lparr>scope_workspace := a\<rparr>)) q
          = base_query cls (WorkspaceScoped w) q
        \<and> base_query cls (Shareable (s\<lparr>scope_workspace := a, ShareableFilter.scope_user := b\<rparr>)) q
          = base_query cls (Shareable s) q
        \<and> base_query cls (ModelScoped (m\<lparr>scope_workspace := a\<rparr>)) q
          = base_query cls (ModelScoped m) q
        \<and> base_query cls (ModelVersionScoped (v\<lparr>scope_workspace := a\<rparr>)) q
          = base_query cls (ModelVersionScoped v) q"
    if "skips_excluded cls"
    by (simp add: base_query_skips [OF that] del: base_query.simps)
  have clause: "fst (apply_filter cls (UserScoped (u\<lparr>UserScopedFilter.scope_user := Some c\<rparr>)) q)
          = query_where (base_query cls (UserScoped (u\<lparr>UserScopedFilter.scope_user := None\<rparr>)) q)
              (Or_of [Equals Col_user_id c])
        \<and> fst (apply_filter cls (WorkspaceScoped (w\<lparr>scope_workspace := Some c\<rparr>)) q)
          = query_where (base_query cls (WorkspaceScoped (w\<lparr>scope_workspace := None\<rparr>)) q)
              (Or_of [Equals Col_workspace_id c, Is_null Col_workspace_id])"
    if "skips_excluded cls"
    by (simp add: UserScopedFilter_apply_filter_def WorkspaceScopedFilter_apply_filter_def
        Let_def base_query_skips [OF that] del: base_query.simps)
  from listed indep clause show ?thesis by blast
qed

theorem scope_fields_excluded_witness:
  "skips_excluded example_class
   \<and> ''scope_user'' \<in> set (ShareableFilter_FILTER_EXCLUDE_FIELDS example_class)
   \<and> ''scope_workspace'' \<in> set (ShareableFilter_FILTER_EXCLUDE_FIELDS example_class)
   \<and> base_query example_class
       (Shareable (fresh_shareable_filter\<lparr>scope_workspace := Some 21,
          ShareableFilter.scope_user := Some 1\<rparr>)) example_query
       = base_query example_class (Shareable fresh_shareable_filter) example_query
   \<and> fst (apply_filter example_class
            (UserScoped (example_user_filter\<lparr>UserScopedFilter.scope_user := Some 1\<rparr>))
            example_query)
       = query_where
           (base_query example_class
              (UserScoped (example_user_filter\<lparr>UserScopedFilter.scope_user := None\<rparr>))
              example_query)
           (Or_of [Equals Col_user_id 1])"
proof -
  note h = example_class_skips
  note c = scope_fields_excluded [where cls = example_class and u = example_user_filter
      and a = "Some 21" and q = example_query and s = fresh_shareable_filter
      and b = "Some 1" and c = 1]
  from h c show ?thesis by blast
qed

section \<open>Applying a filter leaves it unchanged\<close>

text \<open>
  Claim C10. \<^verbatim>\<open>apply_filter\<close> of every class returns the object as it received it:
  no scope field (\<^verbatim>\<open>scope_user\<close>, \<^verbatim>\<open>scope_workspace\<close>, \<^verbatim>\<open>_model_id\<close>,
  \<^verbatim>\<open>_model_version_id\<close>) changes. So applying the filter a second time to the same
  query returns the same query as the first time.
\<close>

theorem apply_filter_read_only:
  "snd (apply_filter cls f q) = f
   \<and> fst (apply_filter cls (snd (apply_filter cls f q)) q) = fst (apply_filter cls f q)
   \<and> snd (ShareableFilter_apply_filter bs s q) = s
   \<and> snd (ModelScopedFilter_apply_filter bm m q) = m
   \<and> snd (ModelVersionScopedFilter_apply_filter bv v q) = v"
proof -
  have "snd (apply_filter cls f q) = f"
    by (cases f) (simp_all add: apply_filter_defs Let_def split: prod.splits)
  moreover have "snd (ShareableFilter_apply_filter bs s q) = s"
    "snd (ModelScopedFilter_apply_filter bm m q) = m"
    "snd (ModelVersionScopedFilter_apply_filter bv v q) = v"
    by (simp_all add: apply_filter_defs Let_def split: prod.splits)
  ultimately show ?thesis by simp
qed

end
